theory Spec2Isabelle
  imports Complex_Main "HOL-Library.Sublist" "HOL-Library.Char_ord"
    "HOL-Library.List_Lexorder" "HOL-Library.Product_Lexorder"
begin

section \<open>CalQ: calculation module and persistence layer\<close>

text \<open>
  A shallow embedding of \<^verbatim>\<open>calculator.py\<close>, \<^verbatim>\<open>models.py\<close> and the class
  \<^verbatim>\<open>DatabaseManager\<close> of \<^verbatim>\<open>ui.py\<close>.

  Conventions of the model.
  \<^item> In the calculation module the float arithmetic of the Python runtime is a
    parameter; IEEE 754 binary64 is given as one runtime, for evaluation.
  \<^item> In the store a float is a NaN or a number, the \<^typ>\<open>real\<close> it denotes; infinities
    are not modelled, and sums of stored numbers are exact.
  \<^item> A Python exception that leaves a function is the \<open>Inl\<close> side of a sum.
  \<^item> A Python \<^verbatim>\<open>str\<close> is a \<^typ>\<open>string\<close>; \<^verbatim>\<open>str.lower()\<close> is a parameter, fixed
    on ASCII strings.
\<close>

subsection \<open>Python values and exceptions\<close>

datatype py_exception =
  TypeError | ValueError | ZeroDivisionError | AttributeError | OverflowError

text \<open>
  The values a caller can pass where the calculator expects a number; \<open>'f\<close> is the
  type of Python's \<^verbatim>\<open>float\<close>.
\<close>

datatype 'f py_value = PyNone | PyInt int | PyFloat 'f | PyStr string

text \<open>
  The float operations of the Python runtime that \<^verbatim>\<open>calculator.py\<close> uses. They are a
  parameter of the model, so that what is proved holds for the arithmetic of the
  runtime, whatever it rounds to:
  \<^item> \<open>float_of_int\<close> is \<^verbatim>\<open>float(n)\<close> for an \<^verbatim>\<open>int\<close>, \<open>None\<close> where it raises
    \<^verbatim>\<open>OverflowError\<close> (an \<^verbatim>\<open>int\<close> beyond the range of a float);
  \<^item> \<open>float_of_str\<close> is \<^verbatim>\<open>float(s)\<close> for a \<^verbatim>\<open>str\<close>, \<open>None\<close> where it raises
    \<^verbatim>\<open>ValueError\<close>;
  \<^item> \<open>float_is_zero x\<close> is \<^verbatim>\<open>x == 0\<close>;
  \<^item> \<open>float_div\<close> and \<open>float_mul\<close> are \<^verbatim>\<open>/\<close> (used with a divisor that is not zero
    only) and \<^verbatim>\<open>*\<close>, which raise nothing on floats.
\<close>

record 'f float_ops =
  float_of_int :: "int \<Rightarrow> 'f option"
  float_of_str :: "string \<Rightarrow> 'f option"
  float_is_zero :: "'f \<Rightarrow> bool"
  float_div :: "'f \<Rightarrow> 'f \<Rightarrow> 'f"
  float_mul :: "'f \<Rightarrow> 'f \<Rightarrow> 'f"

text \<open>The builtin \<^verbatim>\<open>float(x)\<close>; \<^verbatim>\<open>float(None)\<close> raises \<^verbatim>\<open>TypeError\<close>.\<close>

definition py_float :: "'f float_ops \<Rightarrow> 'f py_value \<Rightarrow> py_exception + 'f" where
  "py_float rt v =
     (case v of
        PyNone \<Rightarrow> Inl TypeError
      | PyInt n \<Rightarrow> (case float_of_int rt n of None \<Rightarrow> Inl OverflowError | Some x \<Rightarrow> Inr x)
      | PyFloat x \<Rightarrow> Inr x
      | PyStr s \<Rightarrow> (case float_of_str rt s of None \<Rightarrow> Inl ValueError | Some x \<Rightarrow> Inr x))"

subsection \<open>Binary64 floats\<close>

text \<open>
  One concrete runtime, for evaluating the model: IEEE 754 binary64 with rounding to
  nearest, ties to even. A finite double is its sign (\<open>True\<close> for minus) and its
  magnitude, a rational; zero has a sign.
\<close>

datatype double = Double bool rat | Infinity bool | NaN

function bit_length :: "int \<Rightarrow> int" where
  "bit_length n = (if n \<le> 0 then 0 else 1 + bit_length (n div 2))"
  by auto
termination
  by (relation "measure nat") auto

function power_of_two :: "int \<Rightarrow> int" where
  "power_of_two k =
     (if k \<le> 0 then 1
      else (let h = power_of_two (k div 2) in if even k then h * h else 2 * h * h))"
  by auto
termination
  by (relation "measure nat") auto

definition pow2 :: "int \<Rightarrow> rat" where
  "pow2 k = (if 0 \<le> k then of_int (power_of_two k) else 1 / of_int (power_of_two (- k)))"

definition round_half_even :: "rat \<Rightarrow> int" where
  "round_half_even q =
     (let f = \<lfloor>q\<rfloor>; r = q - of_int f
      in if r < 1 / 2 then f else if 1 / 2 < r then f + 1 else if even f then f else f + 1)"

text \<open>The exponent of a positive rational: the \<open>e\<close> with \<open>2 ^ e \<le> a < 2 ^ (e + 1)\<close>.\<close>

definition floor_log2 :: "rat \<Rightarrow> int" where
  "floor_log2 a =
     (case quotient_of a of
        (p, q) \<Rightarrow>
          (let e0 = bit_length p - bit_length q in if pow2 e0 \<le> a then e0 else e0 - 1))"

text \<open>
  A positive rational rounded to 53 significant bits, or to a multiple of \<open>2 ^ (-1074)\<close>
  below the normal range. The result is \<open>2 ^ 1024\<close> or more where the double overflows.
\<close>

definition round_binary64 :: "rat \<Rightarrow> rat" where
  "round_binary64 a =
     (let e = max (floor_log2 a) (- 1022); ulp = pow2 (e - 52)
      in of_int (round_half_even (a / ulp)) * ulp)"

definition double_of_rat :: "bool \<Rightarrow> rat \<Rightarrow> double" where
  "double_of_rat s a =
     (if a = 0 then Double s 0
      else (let v = round_binary64 a in if pow2 1024 \<le> v then Infinity s else Double s v))"

text \<open>
  \<^verbatim>\<open>float(n)\<close>: \<^verbatim>\<open>OverflowError\<close> when \<open>n\<close> has more than 1024 bits or rounds to
  \<open>2 ^ 1024\<close>.
\<close>

definition double_of_int :: "int \<Rightarrow> double option" where
  "double_of_int n =
     (if 1024 < bit_length \<bar>n\<bar> then None
      else (case double_of_rat (n < 0) (of_int \<bar>n\<bar>) of
              Infinity s \<Rightarrow> None
            | x \<Rightarrow> Some x))"

fun double_mul :: "double \<Rightarrow> double \<Rightarrow> double" where
  "double_mul (Double s a) (Double t b) = double_of_rat (s \<noteq> t) (a * b)"
| "double_mul (Double s a) (Infinity t) = (if a = 0 then NaN else Infinity (s \<noteq> t))"
| "double_mul (Infinity s) (Double t b) = (if b = 0 then NaN else Infinity (s \<noteq> t))"
| "double_mul (Infinity s) (Infinity t) = Infinity (s \<noteq> t)"
| "double_mul NaN y = NaN"
| "double_mul x NaN = NaN"

text \<open>Division by a zero is not reached by the calculator; it is NaN here.\<close>

fun double_div :: "double \<Rightarrow> double \<Rightarrow> double" where
  "double_div (Double s a) (Double t b) =
     (if b = 0 then NaN else double_of_rat (s \<noteq> t) (a / b))"
| "double_div (Double s a) (Infinity t) = Double (s \<noteq> t) 0"
| "double_div (Infinity s) (Double t b) = Infinity (s \<noteq> t)"
| "double_div (Infinity s) (Infinity t) = NaN"
| "double_div NaN y = NaN"
| "double_div x NaN = NaN"

fun double_is_zero :: "double \<Rightarrow> bool" where
  "double_is_zero (Double s a) = (a = 0)"
| "double_is_zero x = False"

text \<open>
  Strings: plain decimal literals \<^verbatim>\<open>[+-]digits[.digits]\<close>, a subset of what
  \<^verbatim>\<open>float\<close> accepts.
\<close>

definition is_digit :: "char \<Rightarrow> bool" where
  "is_digit c = (48 \<le> (of_char c :: nat) \<and> (of_char c :: nat) \<le> 57)"

fun digits_value :: "int \<Rightarrow> string \<Rightarrow> int" where
  "digits_value acc [] = acc"
| "digits_value acc (c # cs) = digits_value (10 * acc + (of_char c - 48)) cs"

definition unsigned_decimal :: "string \<Rightarrow> rat option" where
  "unsigned_decimal s =
     (let ip = takeWhile is_digit s; rest = dropWhile is_digit s in
      case rest of
        [] \<Rightarrow> if ip = [] then None else Some (of_int (digits_value 0 ip))
      | c # fp \<Rightarrow>
          if c = CHR ''.'' \<and> list_all is_digit fp \<and> (ip \<noteq> [] \<or> fp \<noteq> [])
          then Some (of_int (digits_value 0 ip)
                 + of_int (digits_value 0 fp) / 10 ^ length fp)
          else None)"

definition decimal_literal :: "string \<Rightarrow> double option" where
  "decimal_literal s =
     (case s of
        [] \<Rightarrow> None
      | c # cs \<Rightarrow>
          if c = CHR ''-'' then map_option (double_of_rat True) (unsigned_decimal cs)
          else if c = CHR ''+'' then map_option (double_of_rat False) (unsigned_decimal cs)
          else map_option (double_of_rat False) (unsigned_decimal s))"

definition double_ops :: "double float_ops" where
  "double_ops =
     \<lparr>float_of_int = double_of_int, float_of_str = decimal_literal,
      float_is_zero = double_is_zero, float_div = double_div, float_mul = double_mul\<rparr>"

subsection \<open>calculator.py\<close>

text \<open>
  \<^verbatim>\<open>calculate_calories_for_serving\<close>: the three conversions run first, in the order
  of the source, inside one \<^verbatim>\<open>try\<close> whose handler turns \<^verbatim>\<open>TypeError\<close> and
  \<^verbatim>\<open>ValueError\<close> into \<^verbatim>\<open>ValueError\<close> and lets every other exception pass; the test
  for zero comes after it.
\<close>

definition convert_all ::
  "'f float_ops \<Rightarrow> 'f py_value \<Rightarrow> 'f py_value \<Rightarrow> 'f py_value
     \<Rightarrow> py_exception + ('f \<times> 'f \<times> 'f)" where
  "convert_all rt calories_per_serving standard_serving_size user_serving_size =
     (case py_float rt calories_per_serving of
        Inl e \<Rightarrow> Inl e
      | Inr cal \<Rightarrow>
          (case py_float rt standard_serving_size of
             Inl e \<Rightarrow> Inl e
           | Inr std_size \<Rightarrow>
               (case py_float rt user_serving_size of
                  Inl e \<Rightarrow> Inl e
                | Inr user_size \<Rightarrow> Inr (cal, std_size, user_size))))"

definition calculate_calories_for_serving ::
  "'f float_ops \<Rightarrow> 'f py_value \<Rightarrow> 'f py_value \<Rightarrow> 'f py_value \<Rightarrow> py_exception + 'f" where
  "calculate_calories_for_serving rt calories_per_serving standard_serving_size user_serving_size =
     (case convert_all rt calories_per_serving standard_serving_size user_serving_size of
        Inl e \<Rightarrow> (if e = TypeError \<or> e = ValueError then Inl ValueError else Inl e)
      | Inr (cal, std_size, user_size) \<Rightarrow>
          if float_is_zero rt std_size then Inl ZeroDivisionError
          else Inr (float_mul rt (float_div rt cal std_size) user_size))"

text \<open>\<^verbatim>\<open>models.UserLog\<close>.\<close>

record UserLog =
  log_id :: "int option"
  date :: string
  meal_type :: string
  food_name :: string
  calories :: real
  serving_size :: string
  notes' :: "string option"
  timestamp :: string





definition total_daily_calories :: "UserLog list \<Rightarrow> real" where
  "total_daily_calories logs = sum_list (map calories logs)"








subsection \<open>The SQLite store behind \<^verbatim>\<open>DatabaseManager\<close>\<close>

text \<open>
  The rows of the two tables, with the columns of the \<^verbatim>\<open>CREATE TABLE\<close> statements of
  \<^verbatim>\<open>initialize_database\<close>, in their order. The values have the types the callers pass
  (\<^verbatim>\<open>str\<close>, \<^verbatim>\<open>float\<close>, \<^verbatim>\<open>int\<close>); a stored \<^verbatim>\<open>REAL\<close> is a number.
\<close>

record meals_row =
  col_id :: int
  col_date :: string
  col_meal_type :: string
  col_food_name :: string
  col_calories :: real
  col_serving_size :: string
  col_notes :: string
  col_timestamp :: string

record users_row =
  user_id :: int
  user_name :: string
  target_calories :: int

text \<open>
  A database: each table is \<open>None\<close> until it is created, and holds its rows in rowid
  order. \<open>meals_seq\<close> is the entry of \<^verbatim>\<open>sqlite_sequence\<close> that \<^verbatim>\<open>AUTOINCREMENT\<close>
  keeps for \<^verbatim>\<open>meals\<close>: the largest id ever handed out.
\<close>

record database =
  meals :: "meals_row list option"
  meals_seq :: int
  users :: "users_row list option"

text \<open>
  What lies behind \<^verbatim>\<open>db_name\<close>: a path that cannot be opened
  (\<^verbatim>\<open>sqlite3.connect\<close> raises), a file that opens but is not a database (every statement
  raises), or a database.
\<close>

datatype sqlite_file = CannotOpen | NotADatabase | Database database

datatype sqlite3_Error = OperationalError | DatabaseError | IntegrityError

text \<open>
  Binding the parameters of a statement. A Python \<^verbatim>\<open>float\<close> is bound as a \<^verbatim>\<open>REAL\<close>,
  a NaN as \<^verbatim>\<open>NULL\<close>. A Python \<^verbatim>\<open>int\<close> is bound as a 64-bit \<^verbatim>\<open>INTEGER\<close>; outside
  that range \<^verbatim>\<open>execute\<close> raises \<^verbatim>\<open>OverflowError\<close>, which is not an
  \<^verbatim>\<open>sqlite3.Error\<close>. A statement is prepared before its parameters are bound.
\<close>

datatype float_argument = Number real | NotANumber

definition sqlite_integer :: "int \<Rightarrow> bool" where
  "sqlite_integer n = (- 9223372036854775808 \<le> n \<and> n \<le> 9223372036854775807)"

definition bind_integer :: "int \<Rightarrow> py_exception + int" where
  "bind_integer n = (if sqlite_integer n then Inr n else Inl OverflowError)"

datatype sqlite3_Connection = Connection

text \<open>\<^verbatim>\<open>self.db_name\<close> with what it names, and \<^verbatim>\<open>self.connection\<close>, \<open>None\<close> as in Python.\<close>

record DatabaseManager =
  db_name :: sqlite_file
  connection :: "sqlite3_Connection option"

definition fresh_database :: database where
  "fresh_database = \<lparr>meals = None, meals_seq = 0, users = None\<rparr>"

definition sqlite3_connect :: "sqlite_file \<Rightarrow> sqlite3_Error + sqlite3_Connection" where
  "sqlite3_connect f = (case f of CannotOpen \<Rightarrow> Inl OperationalError | _ \<Rightarrow> Inr Connection)"

text \<open>A statement reaches the database, or raises.\<close>

definition database_of :: "sqlite_file \<Rightarrow> sqlite3_Error + database" where
  "database_of f =
     (case f of
        CannotOpen \<Rightarrow> Inl OperationalError
      | NotADatabase \<Rightarrow> Inl DatabaseError
      | Database d \<Rightarrow> Inr d)"

text \<open>The statements of the source, one function each.\<close>

text \<open>Preparing a statement on \<^verbatim>\<open>meals\<close> fails when there is no such table.\<close>

definition prepare_on_meals :: "database \<Rightarrow> sqlite3_Error + meals_row list" where
  "prepare_on_meals d =
     (case meals d of None \<Rightarrow> Inl OperationalError | Some ms \<Rightarrow> Inr ms)"

definition create_table_meals :: "database \<Rightarrow> database" where
  "create_table_meals d = (case meals d of None \<Rightarrow> d\<lparr>meals := Some []\<rparr> | Some _ \<Rightarrow> d)"

definition create_table_users :: "database \<Rightarrow> database" where
  "create_table_users d = (case users d of None \<Rightarrow> d\<lparr>users := Some []\<rparr> | Some _ \<Rightarrow> d)"

definition select_count_users :: "database \<Rightarrow> sqlite3_Error + nat" where
  "select_count_users d =
     (case users d of None \<Rightarrow> Inl OperationalError | Some us \<Rightarrow> Inr (length us))"

text \<open>A rowid that is not given is one more than the largest in the table, 1 in an empty table.\<close>

definition next_rowid :: "int list \<Rightarrow> int" where
  "next_rowid ids = (if ids = [] then 1 else Max (set ids) + 1)"

definition insert_into_users :: "string \<Rightarrow> int \<Rightarrow> database \<Rightarrow> sqlite3_Error + database" where
  "insert_into_users nm target d =
     (case users d of
        None \<Rightarrow> Inl OperationalError
      | Some us \<Rightarrow>
          Inr (d\<lparr>users := Some (us @
            [\<lparr>user_id = next_rowid (map user_id us), user_name = nm,
              target_calories = target\<rparr>])\<rparr>))"

text \<open>
  With \<^verbatim>\<open>AUTOINCREMENT\<close> the new id is one more than the largest id ever used; the
  insert fails once the largest 64-bit rowid has been used. A NaN reaches the column
  \<^verbatim>\<open>calories REAL NOT NULL\<close> as \<^verbatim>\<open>NULL\<close> and the insert fails.
\<close>

definition insert_into_meals ::
  "string \<Rightarrow> string \<Rightarrow> string \<Rightarrow> float_argument \<Rightarrow> string \<Rightarrow> string \<Rightarrow> string
     \<Rightarrow> database \<Rightarrow> sqlite3_Error + database" where
  "insert_into_meals dt mt fn cal ss nt ts d =
     (case meals d of
        None \<Rightarrow> Inl OperationalError
      | Some ms \<Rightarrow>
          (case cal of
             NotANumber \<Rightarrow> Inl IntegrityError
           | Number x \<Rightarrow>
               (let largest = fold max (map col_id ms) (meals_seq d) in
                if largest \<ge> 9223372036854775807 then Inl OperationalError
                else Inr (d\<lparr>meals := Some (ms @
                       [\<lparr>col_id = largest + 1, col_date = dt, col_meal_type = mt,
                         col_food_name = fn, col_calories = x, col_serving_size = ss,
                         col_notes = nt, col_timestamp = ts\<rparr>]),
                       meals_seq := largest + 1\<rparr>))))"

definition select_meals_by_date ::
  "string \<Rightarrow> database
     \<Rightarrow> sqlite3_Error + (int \<times> string \<times> string \<times> real \<times> string \<times> string \<times> string) list" where
  "select_meals_by_date dt d =
     (case meals d of
        None \<Rightarrow> Inl OperationalError
      | Some ms \<Rightarrow>
          Inr (map (\<lambda>r. (col_id r, col_meal_type r, col_food_name r, col_calories r,
                          col_serving_size r, col_notes r, col_timestamp r))
                 (sort_key col_timestamp (filter (\<lambda>r. col_date r = dt) ms))))"

text \<open>
  \<^verbatim>\<open>ORDER BY date DESC, timestamp DESC\<close>, rows with equal keys in rowid order; the
  eight selected columns are all the columns of the table in its own order, so a result
  row is the table row.
\<close>

definition select_all_meals :: "database \<Rightarrow> sqlite3_Error + meals_row list" where
  "select_all_meals d =
     (case meals d of
        None \<Rightarrow> Inl OperationalError
      | Some ms \<Rightarrow> Inr (rev (sort_key (\<lambda>r. (col_date r, col_timestamp r)) (rev ms))))"

text \<open>
  The \<^verbatim>\<open>UPDATE\<close>. The constraint \<^verbatim>\<open>NOT NULL\<close> on \<^verbatim>\<open>calories\<close> is tested on the rows
  that are updated: a NaN fails it when a row has the id, and then no row is changed.
\<close>

definition update_meals ::
  "int \<Rightarrow> string \<Rightarrow> string \<Rightarrow> float_argument \<Rightarrow> string \<Rightarrow> string \<Rightarrow> database
     \<Rightarrow> sqlite3_Error + database" where
  "update_meals meal_id mt fn cal ss nt d =
     (case meals d of
        None \<Rightarrow> Inl OperationalError
      | Some ms \<Rightarrow>
          (case cal of
             NotANumber \<Rightarrow>
               if list_ex (\<lambda>r. col_id r = meal_id) ms then Inl IntegrityError else Inr d
           | Number x \<Rightarrow>
               Inr (d\<lparr>meals := Some (map (\<lambda>r.
                      if col_id r = meal_id
                      then r\<lparr>col_meal_type := mt, col_food_name := fn, col_calories := x,
                             col_serving_size := ss, col_notes := nt\<rparr>
                      else r) ms)\<rparr>)))"

definition delete_from_meals :: "int \<Rightarrow> database \<Rightarrow> sqlite3_Error + database" where
  "delete_from_meals meal_id d =
     (case meals d of
        None \<Rightarrow> Inl OperationalError
      | Some ms \<Rightarrow> Inr (d\<lparr>meals := Some (filter (\<lambda>r. col_id r \<noteq> meal_id) ms)\<rparr>))"

text \<open>\<^verbatim>\<open>SUM(calories)\<close> is SQL NULL, Python's \<^verbatim>\<open>None\<close>, when no row matches.\<close>

definition select_sum_calories :: "string \<Rightarrow> database \<Rightarrow> sqlite3_Error + real option" where
  "select_sum_calories dt d =
     (case meals d of
        None \<Rightarrow> Inl OperationalError
      | Some ms \<Rightarrow>
          (let matching = filter (\<lambda>r. col_date r = dt) ms in
           Inr (if matching = [] then None else Some (sum_list (map col_calories matching)))))"

text \<open>\<^verbatim>\<open>fetchone()\<close> after \<^verbatim>\<open>SELECT target_calories FROM users WHERE id = 1\<close>.\<close>

definition select_target_calories :: "database \<Rightarrow> sqlite3_Error + int option" where
  "select_target_calories d =
     (case users d of
        None \<Rightarrow> Inl OperationalError
      | Some us \<Rightarrow> Inr (map_option target_calories (find (\<lambda>u. user_id u = 1) us)))"

subsection \<open>Dates\<close>

text \<open>
  A \<^verbatim>\<open>datetime\<close> is its proleptic Gregorian ordinal (day 1 is 0001-01-01, as
  \<^verbatim>\<open>toordinal()\<close>) and the microsecond within the day. Subtracting
  \<^verbatim>\<open>timedelta(days=i)\<close> moves the ordinal and raises \<^verbatim>\<open>OverflowError\<close> before year 1.
\<close>

record datetime =
  toordinal :: int
  microsecond_of_day :: int

definition minus_days :: "datetime \<Rightarrow> nat \<Rightarrow> py_exception + datetime" where
  "minus_days t i =
     (if toordinal t - int i < 1 then Inl OverflowError
      else Inr (t\<lparr>toordinal := toordinal t - int i\<rparr>))"

text \<open>Year, month and day of an ordinal, by the steps of the standard library's \<^verbatim>\<open>_ord2ymd\<close>.\<close>

definition days_before_month :: "int \<Rightarrow> int" where
  "days_before_month m = [0, 0, 31, 59, 90, 120, 151, 181, 212, 243, 273, 304, 334] ! nat m"

definition days_in_month :: "int \<Rightarrow> int" where
  "days_in_month m = [0, 31, 28, 31, 30, 31, 30, 31, 31, 30, 31, 30, 31] ! nat m"

definition ord2ymd :: "int \<Rightarrow> int \<times> int \<times> int" where
  "ord2ymd ordinal =
     (let n0 = ordinal - 1;
          n400 = n0 div 146097; n1' = n0 mod 146097;
          n100 = n1' div 36524; n2' = n1' mod 36524;
          n4 = n2' div 1461; n3' = n2' mod 1461;
          n1 = n3' div 365; n = n3' mod 365;
          year = n400 * 400 + 1 + n100 * 100 + n4 * 4 + n1
      in if n1 = 4 \<or> n100 = 4 then (year - 1, 12, 31)
         else
           (let leapyear = (n1 = 3 \<and> (n4 \<noteq> 24 \<or> n100 = 3));
                month = (n + 50) div 32;
                preceding = days_before_month month + (if month > 2 \<and> leapyear then 1 else 0)
            in if preceding > n
               then (let month' = month - 1;
                         preceding' = preceding
                           - (days_in_month month' + (if month' = 2 \<and> leapyear then 1 else 0))
                     in (year, month', n - preceding' + 1))
               else (year, month, n - preceding + 1)))"

definition digit_char :: "int \<Rightarrow> char" where
  "digit_char k = char_of (48 + nat (k mod 10))"

text \<open>\<^verbatim>\<open>strftime("%Y-%m-%d")\<close>: four digits, two digits, two digits.\<close>

definition ymd_string :: "int \<Rightarrow> string" where
  "ymd_string ordinal =
     (case ord2ymd ordinal of
        (y, m, d) \<Rightarrow>
          [digit_char (y div 1000), digit_char (y div 100), digit_char (y div 10), digit_char y,
           CHR ''-'', digit_char (m div 10), digit_char m,
           CHR ''-'', digit_char (d div 10), digit_char d])"

definition strftime_Ymd :: "datetime \<Rightarrow> string" where
  "strftime_Ymd t = ymd_string (toordinal t)"

subsection \<open>\<^verbatim>\<open>DatabaseManager\<close>\<close>

text \<open>
  Every method returns its result, or the exception that leaves it, together with the
  manager after the call. \<^verbatim>\<open>self.connection.cursor()\<close> on the \<^verbatim>\<open>None\<close> of a failed
  \<^verbatim>\<open>connect\<close> raises \<^verbatim>\<open>AttributeError\<close>, which the handlers for
  \<^verbatim>\<open>sqlite3.Error\<close> do not catch; nor do they catch the \<^verbatim>\<open>OverflowError\<close> of an id
  that does not fit a 64-bit integer. Console output and message boxes are left out.
\<close>

definition initialize_statements :: "database \<Rightarrow> sqlite3_Error + database" where
  "initialize_statements d =
     (let d1 = create_table_meals d;
          d2 = create_table_users d1
      in case select_count_users d2 of
           Inl err \<Rightarrow> Inl err
         | Inr n \<Rightarrow> if n = 0 then insert_into_users ''User'' 2000 d2 else Inr d2)"

definition initialize_database :: "DatabaseManager \<Rightarrow> DatabaseManager" where
  "initialize_database self =
     (case sqlite3_connect (db_name self) of
        Inl err \<Rightarrow> self
      | Inr conn \<Rightarrow>
          (let self1 = self\<lparr>connection := Some conn\<rparr> in
           case database_of (db_name self1) of
             Inl err \<Rightarrow> self1
           | Inr d \<Rightarrow>
               (case initialize_statements d of
                  Inl err \<Rightarrow> self1
                | Inr d' \<Rightarrow> self1\<lparr>db_name := Database d'\<rparr>)))"

text \<open>\<^verbatim>\<open>__init__\<close>.\<close>

definition DatabaseManager_init :: "sqlite_file \<Rightarrow> DatabaseManager" where
  "DatabaseManager_init f = initialize_database \<lparr>db_name = f, connection = None\<rparr>"

text \<open>\<open>now\<close> is \<^verbatim>\<open>datetime.now().isoformat()\<close> at the time of the call.\<close>

definition create_meal ::
  "DatabaseManager \<Rightarrow> string \<Rightarrow> string \<Rightarrow> string \<Rightarrow> string \<Rightarrow> float_argument \<Rightarrow> string
     \<Rightarrow> string \<Rightarrow> (py_exception + bool) \<times> DatabaseManager" where
  "create_meal self now dt mt fn cal ss nt =
     (case connection self of
        None \<Rightarrow> (Inl AttributeError, self)
      | Some conn \<Rightarrow>
          (case database_of (db_name self) of
             Inl err \<Rightarrow> (Inr False, self)
           | Inr d \<Rightarrow>
               (case insert_into_meals dt mt fn cal ss nt now d of
                  Inl err \<Rightarrow> (Inr False, self)
                | Inr d' \<Rightarrow> (Inr True, self\<lparr>db_name := Database d'\<rparr>))))"

definition read_meals_by_date ::
  "DatabaseManager \<Rightarrow> string
     \<Rightarrow> py_exception + (int \<times> string \<times> string \<times> real \<times> string \<times> string \<times> string) list" where
  "read_meals_by_date self dt =
     (case connection self of
        None \<Rightarrow> Inl AttributeError
      | Some conn \<Rightarrow>
          (case database_of (db_name self) of
             Inl err \<Rightarrow> Inr []
           | Inr d \<Rightarrow>
               (case select_meals_by_date dt d of
                  Inl err \<Rightarrow> Inr []
                | Inr rows \<Rightarrow> Inr rows)))"

definition read_all_meals :: "DatabaseManager \<Rightarrow> py_exception + meals_row list" where
  "read_all_meals self =
     (case connection self of
        None \<Rightarrow> Inl AttributeError
      | Some conn \<Rightarrow>
          (case database_of (db_name self) of
             Inl err \<Rightarrow> Inr []
           | Inr d \<Rightarrow>
               (case select_all_meals d of
                  Inl err \<Rightarrow> Inr []
                | Inr rows \<Rightarrow> Inr rows)))"

definition update_meal ::
  "DatabaseManager \<Rightarrow> int \<Rightarrow> string \<Rightarrow> string \<Rightarrow> float_argument \<Rightarrow> string \<Rightarrow> string
     \<Rightarrow> (py_exception + bool) \<times> DatabaseManager" where
  "update_meal self meal_id mt fn cal ss nt =
     (case connection self of
        None \<Rightarrow> (Inl AttributeError, self)
      | Some conn \<Rightarrow>
          (case database_of (db_name self) of
             Inl err \<Rightarrow> (Inr False, self)
           | Inr d \<Rightarrow>
               (case prepare_on_meals d of
                  Inl err \<Rightarrow> (Inr False, self)
                | Inr ms \<Rightarrow>
                    (case bind_integer meal_id of
                       Inl e \<Rightarrow> (Inl e, self)
                     | Inr bound_id \<Rightarrow>
                         (case update_meals bound_id mt fn cal ss nt d of
                            Inl err \<Rightarrow> (Inr False, self)
                          | Inr d' \<Rightarrow> (Inr True, self\<lparr>db_name := Database d'\<rparr>))))))"

definition delete_meal ::
  "DatabaseManager \<Rightarrow> int \<Rightarrow> (py_exception + bool) \<times> DatabaseManager" where
  "delete_meal self meal_id =
     (case connection self of
        None \<Rightarrow> (Inl AttributeError, self)
      | Some conn \<Rightarrow>
          (case database_of (db_name self) of
             Inl err \<Rightarrow> (Inr False, self)
           | Inr d \<Rightarrow>
               (case prepare_on_meals d of
                  Inl err \<Rightarrow> (Inr False, self)
                | Inr ms \<Rightarrow>
                    (case bind_integer meal_id of
                       Inl e \<Rightarrow> (Inl e, self)
                     | Inr bound_id \<Rightarrow>
                         (case delete_from_meals bound_id d of
                            Inl err \<Rightarrow> (Inr False, self)
                          | Inr d' \<Rightarrow> (Inr True, self\<lparr>db_name := Database d'\<rparr>))))))"

text \<open>\<^verbatim>\<open>float(result) if result else 0.0\<close>: \<^verbatim>\<open>None\<close> and \<^verbatim>\<open>0.0\<close> are both false.\<close>

definition get_daily_calories :: "DatabaseManager \<Rightarrow> string \<Rightarrow> py_exception + real" where
  "get_daily_calories self dt =
     (case connection self of
        None \<Rightarrow> Inl AttributeError
      | Some conn \<Rightarrow>
          (case database_of (db_name self) of
             Inl err \<Rightarrow> Inr 0
           | Inr d \<Rightarrow>
               (case select_sum_calories dt d of
                  Inl err \<Rightarrow> Inr 0
                | Inr result \<Rightarrow>
                    (case result of
                       None \<Rightarrow> Inr 0
                     | Some x \<Rightarrow> if x \<noteq> 0 then Inr x else Inr 0))))"

text \<open>
  \<^verbatim>\<open>get_weekly_data\<close> reads the clock once in every round of its loop: \<open>clock k\<close> is
  the value of the \<open>k\<close>-th \<^verbatim>\<open>datetime.now()\<close> of the call. The loop variable runs
  through \<^verbatim>\<open>range(6, -1, -1)\<close>.
\<close>

fun weekly_loop ::
  "DatabaseManager \<Rightarrow> (nat \<Rightarrow> datetime) \<Rightarrow> nat \<Rightarrow> nat list \<Rightarrow> (string \<times> real) list
     \<Rightarrow> py_exception + (string \<times> real) list" where
  "weekly_loop self clock k [] weekly_data = Inr weekly_data"
| "weekly_loop self clock k (i # rest) weekly_data =
     (case minus_days (clock k) i of
        Inl e \<Rightarrow> Inl e
      | Inr t \<Rightarrow>
          (let dt = strftime_Ymd t in
           case get_daily_calories self dt of
             Inl e \<Rightarrow> Inl e
           | Inr cals \<Rightarrow> weekly_loop self clock (Suc k) rest (weekly_data @ [(dt, cals)])))"

definition get_weekly_data ::
  "DatabaseManager \<Rightarrow> (nat \<Rightarrow> datetime) \<Rightarrow> py_exception + (string \<times> real) list" where
  "get_weekly_data self clock = weekly_loop self clock 0 [6, 5, 4, 3, 2, 1, 0] []"

text \<open>\<^verbatim>\<open>int(result[0]) if result else 2000\<close>.\<close>

definition get_target_calories :: "DatabaseManager \<Rightarrow> py_exception + int" where
  "get_target_calories self =
     (case connection self of
        None \<Rightarrow> Inl AttributeError
      | Some conn \<Rightarrow>
          (case database_of (db_name self) of
             Inl err \<Rightarrow> Inr 2000
           | Inr d \<Rightarrow>
               (case select_target_calories d of
                  Inl err \<Rightarrow> Inr 2000
                | Inr result \<Rightarrow>
                    (case result of None \<Rightarrow> Inr 2000 | Some target \<Rightarrow> Inr target))))"

subsection \<open>Observing a manager's store\<close>

text \<open>The rows of the two tables, empty where there is no database or no table.\<close>

definition stored_meals :: "DatabaseManager \<Rightarrow> meals_row list" where
  "stored_meals self =
     (case db_name self of
        Database d \<Rightarrow> (case meals d of None \<Rightarrow> [] | Some ms \<Rightarrow> ms)
      | _ \<Rightarrow> [])"

definition stored_users :: "DatabaseManager \<Rightarrow> users_row list" where
  "stored_users self =
     (case db_name self of
        Database d \<Rightarrow> (case users d of None \<Rightarrow> [] | Some us \<Rightarrow> us)
      | _ \<Rightarrow> [])"

text \<open>The settings row that \<^verbatim>\<open>initialize_database\<close> inserts.\<close>

definition default_user :: users_row where
  "default_user = \<lparr>user_id = 1, user_name = ''User'', target_calories = 2000\<rparr>"

text \<open>A store with three logged meals, for evaluating the operations.\<close>

definition example_meals :: "meals_row list" where
  "example_meals =
     [\<lparr>col_id = 1, col_date = ''2024-01-01'', col_meal_type = ''Lunch'',
       col_food_name = ''Rice'', col_calories = 200, col_serving_size = ''1 cup'',
       col_notes = [], col_timestamp = ''2024-01-01T12:30:00''\<rparr>,
      \<lparr>col_id = 2, col_date = ''2024-01-01'', col_meal_type = ''Dinner'',
       col_food_name = ''Soup'', col_calories = 150, col_serving_size = ''1 bowl'',
       col_notes = ''hot'', col_timestamp = ''2024-01-01T19:00:00''\<rparr>,
      \<lparr>col_id = 3, col_date = ''2024-01-02'', col_meal_type = ''Breakfast'',
       col_food_name = ''Egg'', col_calories = 78, col_serving_size = ''1'',
       col_notes = [], col_timestamp = ''2024-01-02T08:00:00''\<rparr>]"

definition example_database :: database where
  "example_database = \<lparr>meals = Some example_meals, meals_seq = 3, users = Some [default_user]\<rparr>"

definition example_manager :: DatabaseManager where
  "example_manager = \<lparr>db_name = Database example_database, connection = Some Connection\<rparr>"

section \<open>Properties of the calculation module\<close>

subsection \<open>Conversions\<close>

lemma py_float_error_kinds:
  "py_float rt v = Inl e \<Longrightarrow> e = TypeError \<or> e = ValueError \<or> e = OverflowError"
  by (auto simp: py_float_def split: py_value.splits option.splits)

lemma convert_all_Inr:
  "py_float rt c = Inr cal \<Longrightarrow> py_float rt s = Inr std \<Longrightarrow> py_float rt u = Inr usr
     \<Longrightarrow> convert_all rt c s u = Inr (cal, std, usr)"
  by (simp add: convert_all_def)

lemma convert_all_first:
  "py_float rt c = Inl e \<Longrightarrow> convert_all rt c s u = Inl e"
  by (simp add: convert_all_def)

lemma convert_all_second:
  "\<not> isl (py_float rt c) \<Longrightarrow> py_float rt s = Inl e \<Longrightarrow> convert_all rt c s u = Inl e"
  by (cases "py_float rt c") (simp_all add: convert_all_def)

lemma convert_all_third:
  "\<not> isl (py_float rt c) \<Longrightarrow> \<not> isl (py_float rt s) \<Longrightarrow> py_float rt u = Inl e
     \<Longrightarrow> convert_all rt c s u = Inl e"
  by (cases "py_float rt c"; cases "py_float rt s") (simp_all add: convert_all_def)

lemma invalid_input_from_convert_all:
  "convert_all rt c s u = Inl e \<Longrightarrow> e = TypeError \<or> e = ValueError
     \<Longrightarrow> calculate_calories_for_serving rt c s u = Inl ValueError"
  by (auto simp: calculate_calories_for_serving_def)

text \<open>The concrete runtime on the values used below.\<close>

lemma double_of_int_values:
  "double_of_int 100 = Some (Double False 100)"
  "double_of_int 50 = Some (Double False 50)"
  "double_of_int 75 = Some (Double False 75)"
  "double_of_int 30 = Some (Double False 30)"
  "double_of_int 1 = Some (Double False 1)"
  "double_of_int 0 = Some (Double False 0)"
  by code_simp+

lemma double_of_large_int: "double_of_int (10 ^ 309) = None"
  by code_simp

lemma py_float_large_int: "py_float double_ops (PyInt (10 ^ 309)) = Inl OverflowError"
  unfolding py_float_def double_ops_def
  by (simp only: py_value.case float_ops.simps double_of_large_int option.case)

lemma decimal_literal_values:
  "decimal_literal ''abc'' = None"
  "decimal_literal ''0'' = Some (Double False 0)"
  by code_simp+

lemma double_arithmetic_values:
  "double_mul (double_div (Double False 100) (Double False 50)) (Double False 75)
     = Double False 150"
  "double_mul (double_div (Double False 1) (Double False 10)) (Double False 3)
     = Double False (5404319552844596 / 18014398509481984)"
  by code_simp+

subsection \<open>Claims about \<^verbatim>\<open>calculate_calories_for_serving\<close>\<close>

text \<open>
  C1, as stated, fails: an integer is a number, but \<^verbatim>\<open>float(10**309)\<close> raises
  \<^verbatim>\<open>OverflowError\<close>, which the handler does not catch, so the call with
  \<open>(10 ^ 309, 1, 1)\<close> returns nothing.
\<close>

theorem large_integer_counterexample:
  "calculate_calories_for_serving double_ops (PyInt (10 ^ 309)) (PyInt 1) (PyInt 1)
     = Inl OverflowError"
  unfolding calculate_calories_for_serving_def convert_all_first [OF py_float_large_int]
  by simp

text \<open>
  C1, amended. Whenever \<^verbatim>\<open>float\<close> converts the three arguments, to \<open>cal\<close>, \<open>std\<close>
  and \<open>usr\<close>, and \<open>std\<close> is not zero, \<^verbatim>\<open>calculate_calories_for_serving\<close> returns
  \<open>(cal / std) * usr\<close> in the float arithmetic of the runtime. The call with 100, 50
  and 75 returns 150.0.
\<close>

theorem calculate_calories_for_serving_value:
  assumes "py_float rt c = Inr cal"
    and "py_float rt s = Inr std"
    and "py_float rt u = Inr usr"
    and "\<not> float_is_zero rt std"
  shows "calculate_calories_for_serving rt c s u = Inr (float_mul rt (float_div rt cal std) usr)"
  using assms by (simp add: calculate_calories_for_serving_def convert_all_Inr)

theorem calculate_calories_for_serving_value_witness:
  "py_float double_ops (PyInt 100) = Inr (Double False 100)
   \<and> py_float double_ops (PyInt 50) = Inr (Double False 50)
   \<and> py_float double_ops (PyInt 75) = Inr (Double False 75)
   \<and> \<not> float_is_zero double_ops (Double False 50)
   \<and> calculate_calories_for_serving double_ops (PyInt 100) (PyInt 50) (PyInt 75)
       = Inr (Double False 150)"
proof -
  have c: "py_float double_ops (PyInt 100) = Inr (Double False 100)"
    and s: "py_float double_ops (PyInt 50) = Inr (Double False 50)"
    and u: "py_float double_ops (PyInt 75) = Inr (Double False 75)"
    by (simp_all add: py_float_def double_ops_def double_of_int_values)
  have z: "\<not> float_is_zero double_ops (Double False 50)"
    by (simp add: double_ops_def)
  have "calculate_calories_for_serving double_ops (PyInt 100) (PyInt 50) (PyInt 75)
      = Inr (float_mul double_ops (float_div double_ops (Double False 100) (Double False 50))
          (Double False 75))"
    by (rule calculate_calories_for_serving_value [OF c s u z])
  also have "\<dots> = Inr (Double False 150)"
    by (simp only: double_ops_def float_ops.simps double_arithmetic_values)
  finally show ?thesis using c s u z by (intro conjI)
qed

text \<open>
  C3, as stated, fails: with a first argument that is not a number the conversion fails
  before the test for zero is reached, and the call raises \<^verbatim>\<open>ValueError\<close> although the
  standard serving size is 0.
\<close>

theorem zero_serving_size_counterexample:
  "calculate_calories_for_serving double_ops (PyStr ''abc'') (PyInt 0) (PyInt 1)
     = Inl ValueError
   \<and> calculate_calories_for_serving double_ops (PyStr ''abc'') (PyInt 0) (PyInt 1)
     \<noteq> Inl ZeroDivisionError"
  by (simp add: calculate_calories_for_serving_def convert_all_def py_float_def double_ops_def
      decimal_literal_values)

text \<open>
  C3, amended. Let the standard serving size convert to a zero. When the calories per
  serving and the user's serving size convert to floats, the call raises
  \<^verbatim>\<open>ZeroDivisionError\<close>, whatever the two floats are. When the calories per serving are
  not a number (\<^verbatim>\<open>float\<close> raises \<^verbatim>\<open>TypeError\<close> or \<^verbatim>\<open>ValueError\<close>), or they convert
  and the user's serving size is not a number, the call raises \<^verbatim>\<open>ValueError\<close>
  instead. The two exceptions are distinct.
\<close>

theorem zero_serving_size_raises:
  assumes "py_float rt s = Inr z"
    and "float_is_zero rt z"
  shows "(\<not> isl (py_float rt c) \<and> \<not> isl (py_float rt u)
            \<longrightarrow> calculate_calories_for_serving rt c s u = Inl ZeroDivisionError)
       \<and> (py_float rt c = Inl TypeError \<or> py_float rt c = Inl ValueError
            \<longrightarrow> calculate_calories_for_serving rt c s u = Inl ValueError)
       \<and> (\<not> isl (py_float rt c)
            \<and> (py_float rt u = Inl TypeError \<or> py_float rt u = Inl ValueError)
            \<longrightarrow> calculate_calories_for_serving rt c s u = Inl ValueError)
       \<and> (Inl ZeroDivisionError :: py_exception + 'a) \<noteq> Inl ValueError"
proof -
  have zero: "calculate_calories_for_serving rt c s u = Inl ZeroDivisionError"
    if "\<not> isl (py_float rt c)" "\<not> isl (py_float rt u)"
  proof -
    from that obtain cal usr where "py_float rt c = Inr cal" "py_float rt u = Inr usr"
      by (cases "py_float rt c"; cases "py_float rt u") auto
    with assms show ?thesis
      by (simp add: calculate_calories_for_serving_def convert_all_Inr)
  qed
  have first: "calculate_calories_for_serving rt c s u = Inl ValueError"
    if "py_float rt c = Inl TypeError \<or> py_float rt c = Inl ValueError"
    using that convert_all_first [of rt c _ s u]
    by (auto intro: invalid_input_from_convert_all)
  have third: "calculate_calories_for_serving rt c s u = Inl ValueError"
    if "\<not> isl (py_float rt c)" "py_float rt u = Inl TypeError \<or> py_float rt u = Inl ValueError"
  proof -
    have s: "\<not> isl (py_float rt s)" using assms(1) by simp
    from that(2) convert_all_third [OF that(1) s] show ?thesis
      by (auto intro: invalid_input_from_convert_all)
  qed
  from zero first third show ?thesis by simp
qed

theorem zero_serving_size_raises_witness:
  "py_float double_ops (PyStr ''0'') = Inr (Double False 0)
   \<and> float_is_zero double_ops (Double False 0)
   \<and> calculate_calories_for_serving double_ops (PyFloat (Double False 250)) (PyStr ''0'') (PyInt 30)
       = Inl ZeroDivisionError
   \<and> calculate_calories_for_serving double_ops (PyStr ''abc'') (PyStr ''0'') (PyInt 30)
       = Inl ValueError
   \<and> calculate_calories_for_serving double_ops (PyInt 100) (PyStr ''0'') PyNone
       = Inl ValueError"
proof -
  have s: "py_float double_ops (PyStr ''0'') = Inr (Double False 0)"
    by (simp add: py_float_def double_ops_def decimal_literal_values)
  have z: "float_is_zero double_ops (Double False 0)"
    by (simp add: double_ops_def)
  have f: "\<not> isl (py_float double_ops (PyFloat (Double False 250)))"
    "\<not> isl (py_float double_ops (PyInt 30))"
    "\<not> isl (py_float double_ops (PyInt 100))"
    "py_float double_ops (PyStr ''abc'') = Inl ValueError"
    "py_float double_ops PyNone = Inl TypeError"
    by (simp_all add: py_float_def double_ops_def double_of_int_values decimal_literal_values)
  have a: "calculate_calories_for_serving double_ops (PyFloat (Double False 250)) (PyStr ''0'')
      (PyInt 30) = Inl ZeroDivisionError"
    using zero_serving_size_raises [OF s z, of "PyFloat (Double False 250)" "PyInt 30",
        THEN conjunct1] f(1,2)
    by blast
  have b: "calculate_calories_for_serving double_ops (PyStr ''abc'') (PyStr ''0'') (PyInt 30)
      = Inl ValueError"
    using zero_serving_size_raises [OF s z, of "PyStr ''abc''" "PyInt 30",
        THEN conjunct2, THEN conjunct1] f(4)
    by blast
  have c: "calculate_calories_for_serving double_ops (PyInt 100) (PyStr ''0'') PyNone
      = Inl ValueError"
    using zero_serving_size_raises [OF s z, of "PyInt 100" PyNone,
        THEN conjunct2, THEN conjunct2, THEN conjunct1] f(3,5)
    by blast
  from s z a b c show ?thesis by (intro conjI)
qed

text \<open>
  C9, as stated, fails: with \<open>10 ^ 309\<close> as the first argument and the string
  \<^verbatim>\<open>abc\<close> as the third, the first conversion raises \<^verbatim>\<open>OverflowError\<close>, which the
  handler does not catch, and the string is never looked at.
\<close>

theorem non_numeric_counterexample:
  "calculate_calories_for_serving double_ops (PyInt (10 ^ 309)) (PyInt 50) (PyStr ''abc'')
     = Inl OverflowError
   \<and> calculate_calories_for_serving double_ops (PyInt (10 ^ 309)) (PyInt 50) (PyStr ''abc'')
     \<noteq> Inl ValueError"
  unfolding calculate_calories_for_serving_def convert_all_first [OF py_float_large_int]
  by simp

text \<open>
  C9, amended. When an argument is not a number (\<^verbatim>\<open>float\<close> raises \<^verbatim>\<open>TypeError\<close> or
  \<^verbatim>\<open>ValueError\<close> on it) and every argument before it, in the order calories per
  serving, standard serving size, user's serving size, converts to a float, the call
  raises \<^verbatim>\<open>ValueError\<close>.
\<close>

theorem non_numeric_raises_ValueError:
  assumes "(py_float rt c = Inl TypeError \<or> py_float rt c = Inl ValueError)
      \<or> (\<not> isl (py_float rt c)
          \<and> (py_float rt s = Inl TypeError \<or> py_float rt s = Inl ValueError))
      \<or> (\<not> isl (py_float rt c) \<and> \<not> isl (py_float rt s)
          \<and> (py_float rt u = Inl TypeError \<or> py_float rt u = Inl ValueError))"
  shows "calculate_calories_for_serving rt c s u = Inl ValueError"
  using assms convert_all_first [of rt c _ s u] convert_all_second [of rt c s _ u]
    convert_all_third [of rt c s u]
  by (auto intro: invalid_input_from_convert_all)

theorem non_numeric_raises_ValueError_witness:
  "\<not> isl (py_float double_ops (PyInt 100))
   \<and> \<not> isl (py_float double_ops (PyInt 50))
   \<and> py_float double_ops (PyStr ''abc'') = Inl ValueError
   \<and> calculate_calories_for_serving double_ops (PyInt 100) (PyInt 50) (PyStr ''abc'')
       = Inl ValueError"
proof -
  have c: "\<not> isl (py_float double_ops (PyInt 100))"
    and s: "\<not> isl (py_float double_ops (PyInt 50))"
    and u: "py_float double_ops (PyStr ''abc'') = Inl ValueError"
    by (simp_all add: py_float_def double_ops_def double_of_int_values decimal_literal_values)
  have "calculate_calories_for_serving double_ops (PyInt 100) (PyInt 50) (PyStr ''abc'')
      = Inl ValueError"
    by (rule non_numeric_raises_ValueError) (use c s u in blast)
  with c s u show ?thesis by (intro conjI)
qed

subsection \<open>Letter case\<close>













subsection \<open>Claim about \<^verbatim>\<open>filter_logs_by_meal_type\<close>\<close>



section \<open>Properties of the persistence layer\<close>

subsection \<open>The operations on an open store\<close>

lemma update_meal_open:
  assumes "connection self = Some conn" "db_name self = Database d" "meals d = Some ms"
    and "sqlite_integer i"
  shows "update_meal self i mt fn (Number x) ss nt =
    (Inr True, self\<lparr>db_name := Database (d\<lparr>meals := Some (map (\<lambda>r.
                 if col_id r = i
                 then r\<lparr>col_meal_type := mt, col_food_name := fn, col_calories := x,
                        col_serving_size := ss, col_notes := nt\<rparr>
                 else r) ms)\<rparr>)\<rparr>)"
  using assms
  by (simp add: update_meal_def database_of_def prepare_on_meals_def bind_integer_def
      update_meals_def)

lemma update_meal_absent:
  assumes "connection self = Some conn" "db_name self = Database d" "meals d = Some ms"
    and "sqlite_integer i"
    and "\<forall>r \<in> set ms. col_id r \<noteq> i"
  shows "update_meal self i mt fn cal ss nt = (Inr True, self)"
proof (cases cal)
  case (Number x)
  have "map (\<lambda>r. if col_id r = i
                 then r\<lparr>col_meal_type := mt, col_food_name := fn, col_calories := x,
                        col_serving_size := ss, col_notes := nt\<rparr>
                 else r) ms = ms"
    using assms(5) by (simp add: map_idI)
  with update_meal_open [OF assms(1-4), of mt fn x ss nt] assms(2,3) Number
  show ?thesis by simp
next
  case NotANumber
  from assms(5) have "\<not> list_ex (\<lambda>r. col_id r = i) ms" by (simp add: list_ex_iff)
  with assms(1-4) NotANumber show ?thesis
    by (simp add: update_meal_def database_of_def prepare_on_meals_def bind_integer_def
        update_meals_def)
qed

lemma update_meal_not_a_number:
  assumes "connection self = Some conn" "db_name self = Database d" "meals d = Some ms"
    and "sqlite_integer i"
    and "\<exists>r \<in> set ms. col_id r = i"
  shows "update_meal self i mt fn NotANumber ss nt = (Inr False, self)"
proof -
  from assms(5) have "list_ex (\<lambda>r. col_id r = i) ms" by (simp add: list_ex_iff)
  with assms(1-4) show ?thesis
    by (simp add: update_meal_def database_of_def prepare_on_meals_def bind_integer_def
        update_meals_def)
qed

lemma update_meal_overflow:
  assumes "connection self = Some conn" "db_name self = Database d" "meals d = Some ms"
    and "\<not> sqlite_integer i"
  shows "update_meal self i mt fn cal ss nt = (Inl OverflowError, self)"
  using assms
  by (simp add: update_meal_def database_of_def prepare_on_meals_def bind_integer_def)

lemma delete_meal_open:
  assumes "connection self = Some conn" "db_name self = Database d" "meals d = Some ms"
    and "sqlite_integer i"
  shows "delete_meal self i =
    (Inr True, self\<lparr>db_name := Database (d\<lparr>meals := Some (filter (\<lambda>r. col_id r \<noteq> i) ms)\<rparr>)\<rparr>)"
  using assms
  by (simp add: delete_meal_def database_of_def prepare_on_meals_def bind_integer_def
      delete_from_meals_def)

lemma delete_meal_overflow:
  assumes "connection self = Some conn" "db_name self = Database d" "meals d = Some ms"
    and "\<not> sqlite_integer i"
  shows "delete_meal self i = (Inl OverflowError, self)"
  using assms
  by (simp add: delete_meal_def database_of_def prepare_on_meals_def bind_integer_def)

lemma read_all_meals_open:
  assumes "connection self = Some conn" "db_name self = Database d" "meals d = Some ms"
  shows "read_all_meals self
     = Inr (rev (sort_key (\<lambda>r. (col_date r, col_timestamp r)) (rev ms)))"
  using assms by (simp add: read_all_meals_def database_of_def select_all_meals_def)

lemma initialize_statements_fresh:
  "initialize_statements fresh_database
     = Inr \<lparr>meals = Some [], meals_seq = 0, users = Some [default_user]\<rparr>"
  by (simp add: initialize_statements_def fresh_database_def create_table_meals_def
      create_table_users_def select_count_users_def insert_into_users_def next_rowid_def
      default_user_def)

lemma initialize_statements_total: "\<exists>d'. initialize_statements d = Inr d'"
  by (auto simp: initialize_statements_def create_table_meals_def Let_def
      create_table_users_def select_count_users_def insert_into_users_def
      split: option.splits)

lemma initialize_statements_again:
  assumes "initialize_statements d = Inr d'"
  shows "initialize_statements d' = Inr d'"
  using assms
  by (auto simp: initialize_statements_def create_table_meals_def Let_def
      create_table_users_def select_count_users_def insert_into_users_def
      split: option.splits if_splits)

lemma initialize_database_idem:
  "initialize_database (initialize_database self) = initialize_database self"
proof (cases "db_name self")
  case CannotOpen
  then show ?thesis by (simp add: initialize_database_def sqlite3_connect_def)
next
  case NotADatabase
  then show ?thesis by (simp add: initialize_database_def sqlite3_connect_def database_of_def)
next
  case (Database d)
  obtain d' where d': "initialize_statements d = Inr d'"
    using initialize_statements_total by blast
  from initialize_statements_again [OF d'] Database d' show ?thesis
    by (simp add: initialize_database_def sqlite3_connect_def database_of_def)
qed

lemma initialize_database_funpow:
  "(initialize_database ^^ n) (initialize_database self) = initialize_database self"
  by (induction n) (simp_all add: initialize_database_idem)

lemma DatabaseManager_init_fresh:
  "DatabaseManager_init (Database fresh_database)
     = \<lparr>db_name = Database \<lparr>meals = Some [], meals_seq = 0, users = Some [default_user]\<rparr>,
        connection = Some Connection\<rparr>"
  by (simp add: DatabaseManager_init_def initialize_database_def sqlite3_connect_def
      database_of_def initialize_statements_fresh)

lemma example_manager_reachable:
  "example_manager =
     snd (create_meal
       (snd (create_meal
         (snd (create_meal (DatabaseManager_init (Database fresh_database))
            ''2024-01-01T12:30:00'' ''2024-01-01'' ''Lunch'' ''Rice'' (Number 200) ''1 cup'' []))
         ''2024-01-01T19:00:00'' ''2024-01-01'' ''Dinner'' ''Soup'' (Number 150) ''1 bowl''
         ''hot''))
       ''2024-01-02T08:00:00'' ''2024-01-02'' ''Breakfast'' ''Egg'' (Number 78) ''1'' [])"
  by (simp add: example_manager_def example_database_def example_meals_def
      DatabaseManager_init_fresh create_meal_def database_of_def insert_into_meals_def)

lemma example_hyps:
  "connection example_manager = Some Connection"
  "db_name example_manager = Database example_database"
  "meals example_database = Some example_meals"
  by (simp_all add: example_manager_def example_database_def)

lemma example_ids: "map col_id example_meals = [1, 2, 3]"
  by (simp add: example_meals_def)

lemma sqlite_integer_values:
  "sqlite_integer 2" "sqlite_integer 7" "\<not> sqlite_integer 9223372036854775808"
  by (simp_all add: sqlite_integer_def)

text \<open>The range of a bound id, and the reads and a failing insert on the example store.\<close>

lemma sqlite_integer_iff: "sqlite_integer n \<longleftrightarrow> - (2 ^ 63) \<le> n \<and> n < 2 ^ 63"
  by (auto simp: sqlite_integer_def)

lemma read_all_meals_example:
  "read_all_meals example_manager
     = Inr [example_meals ! 2, example_meals ! 1, example_meals ! 0]"
  by code_simp

lemma select_all_meals_ties:
  assumes "col_date a = col_date b" "col_timestamp a = col_timestamp b"
  shows "select_all_meals \<lparr>meals = Some [a, b], meals_seq = n, users = us\<rparr> = Inr [a, b]"
  using assms by (simp add: select_all_meals_def)

lemma read_meals_by_date_example:
  "read_meals_by_date example_manager ''2024-01-01''
     = Inr [(1, ''Lunch'', ''Rice'', 200, ''1 cup'', [], ''2024-01-01T12:30:00''),
            (2, ''Dinner'', ''Soup'', 150, ''1 bowl'', ''hot'', ''2024-01-01T19:00:00'')]"
  by code_simp

lemma get_daily_calories_example:
  "get_daily_calories example_manager ''2024-01-01'' = Inr 350"
  "get_daily_calories example_manager ''2024-01-03'' = Inr 0"
  by code_simp+

lemma create_meal_not_a_number:
  "create_meal example_manager ''2024-01-03T09:00:00'' ''2024-01-03'' ''Snacks'' ''Apple''
     NotANumber ''1 piece'' [] = (Inr False, example_manager)"
  by (simp add: create_meal_def example_manager_def example_database_def database_of_def
      insert_into_meals_def)

subsection \<open>Claims about \<^verbatim>\<open>update_meal\<close>\<close>

text \<open>
  C5, as stated, fails: a NaN as the calories is bound as \<^verbatim>\<open>NULL\<close>, the constraint
  \<^verbatim>\<open>NOT NULL\<close> of the column fails, and \<^verbatim>\<open>update_meal\<close> returns \<^verbatim>\<open>False\<close> and
  replaces nothing in the entry with the id.
\<close>

theorem update_meal_nan_counterexample:
  "update_meal example_manager 2 ''Snacks'' ''Apple'' NotANumber ''1 piece'' ''red''
     = (Inr False, example_manager)"
proof -
  have "\<exists>r \<in> set example_meals. col_id r = 2" by (simp add: example_meals_def)
  from update_meal_not_a_number [OF example_hyps sqlite_integer_values(1) this]
  show ?thesis .
qed

text \<open>
  C5, amended. On an open store whose meals table exists, with an id that is a 64-bit
  integer and calories that are a number and not a NaN, \<^verbatim>\<open>update_meal\<close> returns
  \<^verbatim>\<open>True\<close>; the table keeps its length and the settings their rows; every row with the
  given id keeps its id, date and timestamp and gets the five new values; every other
  row is unchanged.
\<close>

theorem update_meal_frame:
  assumes "connection self = Some conn"
    and "db_name self = Database d"
    and "meals d = Some ms"
    and "sqlite_integer meal_id"
  shows "fst (update_meal self meal_id mt fn (Number x) ss nt) = Inr True
    \<and> connection (snd (update_meal self meal_id mt fn (Number x) ss nt)) = connection self
    \<and> stored_users (snd (update_meal self meal_id mt fn (Number x) ss nt)) = stored_users self
    \<and> length (stored_meals (snd (update_meal self meal_id mt fn (Number x) ss nt))) = length ms
    \<and> (\<forall>k < length ms.
          (col_id (ms ! k) = meal_id \<longrightarrow>
             stored_meals (snd (update_meal self meal_id mt fn (Number x) ss nt)) ! k
               = \<lparr>col_id = meal_id, col_date = col_date (ms ! k), col_meal_type = mt,
                  col_food_name = fn, col_calories = x, col_serving_size = ss,
                  col_notes = nt, col_timestamp = col_timestamp (ms ! k)\<rparr>)
          \<and> (col_id (ms ! k) \<noteq> meal_id \<longrightarrow>
             stored_meals (snd (update_meal self meal_id mt fn (Number x) ss nt)) ! k = ms ! k))"
  using assms
  by (simp add: update_meal_open [OF assms] stored_meals_def stored_users_def)

theorem update_meal_frame_witness:
  "connection example_manager = Some Connection
   \<and> db_name example_manager = Database example_database
   \<and> meals example_database = Some example_meals
   \<and> sqlite_integer 2
   \<and> fst (update_meal example_manager 2 ''Snacks'' ''Apple'' (Number 95) ''1 piece'' ''red'')
       = Inr True
   \<and> stored_meals (snd (update_meal example_manager 2 ''Snacks'' ''Apple'' (Number 95)
        ''1 piece'' ''red'')) ! 0
       = example_meals ! 0
   \<and> stored_meals (snd (update_meal example_manager 2 ''Snacks'' ''Apple'' (Number 95)
        ''1 piece'' ''red'')) ! 1
       = \<lparr>col_id = 2, col_date = ''2024-01-01'', col_meal_type = ''Snacks'',
          col_food_name = ''Apple'', col_calories = 95, col_serving_size = ''1 piece'',
          col_notes = ''red'', col_timestamp = ''2024-01-01T19:00:00''\<rparr>
   \<and> stored_meals (snd (update_meal example_manager 2 ''Snacks'' ''Apple'' (Number 95)
        ''1 piece'' ''red'')) ! 2
       = example_meals ! 2"
proof -
  have len: "(0::nat) < length example_meals" "1 < length example_meals" "2 < length example_meals"
    by (simp_all add: example_meals_def)
  have ids: "col_id (example_meals ! 0) \<noteq> 2" "col_id (example_meals ! 1) = 2"
    "col_id (example_meals ! 2) \<noteq> 2"
    "col_date (example_meals ! 1) = ''2024-01-01''"
    "col_timestamp (example_meals ! 1) = ''2024-01-01T19:00:00''"
    by (simp_all add: example_meals_def)
  from update_meal_frame [OF example_hyps sqlite_integer_values(1),
      of "''Snacks''" "''Apple''" 95 "''1 piece''" "''red''"]
    len ids example_hyps sqlite_integer_values(1)
  show ?thesis by (metis (no_types, lifting))
qed

text \<open>
  C10, as stated, fails: an id that exceeds the 64-bit integers matches no entry, and
  binding it raises \<^verbatim>\<open>OverflowError\<close>, which leaves \<^verbatim>\<open>update_meal\<close>; no success is
  reported.
\<close>

theorem update_meal_large_id_counterexample:
  "update_meal example_manager 9223372036854775808 ''Snacks'' ''Apple'' (Number 95)
     ''1 piece'' ''red'' = (Inl OverflowError, example_manager)"
  by (rule update_meal_overflow [OF example_hyps sqlite_integer_values(3)])

text \<open>
  C10, amended. On an open store, \<^verbatim>\<open>update_meal\<close> with an id that is a 64-bit integer
  and that no row has returns \<^verbatim>\<open>True\<close> and leaves the manager, and with it every row
  of both tables, as it was.
\<close>

theorem update_meal_missing_id:
  assumes "connection self = Some conn"
    and "db_name self = Database d"
    and "meals d = Some ms"
    and "sqlite_integer meal_id"
    and "\<forall>r \<in> set ms. col_id r \<noteq> meal_id"
  shows "update_meal self meal_id mt fn cal ss nt = (Inr True, self)"
  by (rule update_meal_absent [OF assms])

theorem update_meal_missing_id_witness:
  "connection example_manager = Some Connection
   \<and> db_name example_manager = Database example_database
   \<and> meals example_database = Some example_meals
   \<and> sqlite_integer 7
   \<and> map col_id example_meals = [1, 2, 3]
   \<and> update_meal example_manager 7 ''Snacks'' ''Apple'' (Number 95) ''1 piece'' ''red''
       = (Inr True, example_manager)"
proof -
  have h: "\<forall>r \<in> set example_meals. col_id r \<noteq> 7"
    by (simp add: example_meals_def)
  from update_meal_missing_id [OF example_hyps sqlite_integer_values(2) h]
    example_hyps example_ids sqlite_integer_values(2)
  show ?thesis by simp
qed

subsection \<open>Claim about \<^verbatim>\<open>delete_meal\<close>\<close>

text \<open>
  C7, as stated, fails: for an id that exceeds the 64-bit integers, which no entry has,
  binding it raises \<^verbatim>\<open>OverflowError\<close>, which leaves \<^verbatim>\<open>delete_meal\<close>: the delete does
  not succeed without error.
\<close>

theorem delete_meal_large_id_counterexample:
  "delete_meal example_manager 9223372036854775808 = (Inl OverflowError, example_manager)"
  by (rule delete_meal_overflow [OF example_hyps sqlite_integer_values(3)])

text \<open>
  C7, amended. On an open store whose meals table exists, \<^verbatim>\<open>delete_meal\<close> with an id
  that is a 64-bit integer returns \<^verbatim>\<open>True\<close>; \<^verbatim>\<open>read_all_meals\<close> then returns the rows
  that have another id, and so no row with the deleted id; deleting the same id again
  returns \<^verbatim>\<open>True\<close> and changes nothing, as does deleting an id that no row has.
\<close>

theorem delete_meal_removes:
  assumes "connection self = Some conn"
    and "db_name self = Database d"
    and "meals d = Some ms"
    and "sqlite_integer meal_id"
  shows "fst (delete_meal self meal_id) = Inr True
    \<and> \<not> isl (read_all_meals (snd (delete_meal self meal_id)))
    \<and> set (projr (read_all_meals (snd (delete_meal self meal_id))))
        = {r \<in> set ms. col_id r \<noteq> meal_id}
    \<and> (\<forall>r \<in> set (projr (read_all_meals (snd (delete_meal self meal_id)))). col_id r \<noteq> meal_id)
    \<and> delete_meal (snd (delete_meal self meal_id)) meal_id
        = (Inr True, snd (delete_meal self meal_id))
    \<and> ((\<forall>r \<in> set ms. col_id r \<noteq> meal_id) \<longrightarrow> delete_meal self meal_id = (Inr True, self))"
proof -
  let ?d' = "d\<lparr>meals := Some (filter (\<lambda>r. col_id r \<noteq> meal_id) ms)\<rparr>"
  let ?s' = "self\<lparr>db_name := Database ?d'\<rparr>"
  have del: "delete_meal self meal_id = (Inr True, ?s')"
    by (rule delete_meal_open [OF assms])
  have c': "connection ?s' = Some conn" using assms(1) by simp
  have n': "db_name ?s' = Database ?d'" by simp
  have m': "meals ?d' = Some (filter (\<lambda>r. col_id r \<noteq> meal_id) ms)" by simp
  have rd: "read_all_meals ?s'
      = Inr (rev (sort_key (\<lambda>r. (col_date r, col_timestamp r))
          (rev (filter (\<lambda>r. col_id r \<noteq> meal_id) ms))))"
    by (rule read_all_meals_open [OF c' n' m'])
  have again: "delete_meal ?s' meal_id = (Inr True, ?s')"
    using delete_meal_open [OF c' n' m' assms(4)] by simp
  have none: "delete_meal self meal_id = (Inr True, self)" if "\<forall>r \<in> set ms. col_id r \<noteq> meal_id"
  proof -
    from that have "filter (\<lambda>r. col_id r \<noteq> meal_id) ms = ms" by simp
    with del assms(2,3) show ?thesis by simp
  qed
  show ?thesis
    unfolding del fst_conv snd_conv rd again
    using none del by auto
qed

theorem delete_meal_removes_witness:
  "connection example_manager = Some Connection
   \<and> db_name example_manager = Database example_database
   \<and> meals example_database = Some example_meals
   \<and> sqlite_integer 2
   \<and> fst (delete_meal example_manager 2) = Inr True
   \<and> set (projr (read_all_meals (snd (delete_meal example_manager 2))))
       = {example_meals ! 0, example_meals ! 2}
   \<and> sqlite_integer 7
   \<and> map col_id example_meals = [1, 2, 3]
   \<and> delete_meal example_manager 7 = (Inr True, example_manager)"
proof -
  have h: "\<forall>r \<in> set example_meals. col_id r \<noteq> 7"
    by (simp add: example_meals_def)
  have "filter (\<lambda>r. col_id r \<noteq> 2) example_meals = [example_meals ! 0, example_meals ! 2]"
    by (simp add: example_meals_def)
  then have "set (filter (\<lambda>r. col_id r \<noteq> 2) example_meals)
      = set [example_meals ! 0, example_meals ! 2]"
    by (rule arg_cong)
  then have s: "{r \<in> set example_meals. col_id r \<noteq> 2} = {example_meals ! 0, example_meals ! 2}"
    by (simp only: set_filter list.set)
  note two = delete_meal_removes [OF example_hyps sqlite_integer_values(1)]
  note seven = delete_meal_removes [OF example_hyps sqlite_integer_values(2)]
  have a: "fst (delete_meal example_manager 2) = Inr True"
    using two by (rule conjunct1)
  have b: "set (projr (read_all_meals (snd (delete_meal example_manager 2))))
       = {example_meals ! 0, example_meals ! 2}"
    using two [THEN conjunct2, THEN conjunct2, THEN conjunct1] s by (rule trans)
  have c: "delete_meal example_manager 7 = (Inr True, example_manager)"
    using seven [THEN conjunct2, THEN conjunct2, THEN conjunct2, THEN conjunct2, THEN conjunct2] h
    by (rule mp)
  from example_hyps sqlite_integer_values(1) a b sqlite_integer_values(2) example_ids c
  show ?thesis by (intro conjI)
qed

subsection \<open>Claim about \<^verbatim>\<open>initialize_database\<close>\<close>

text \<open>
  C6. \<^verbatim>\<open>initialize_database\<close> is idempotent on every manager. On a fresh store the
  first call creates both tables, empty but for the one settings row (id 1, name
  \<^verbatim>\<open>User\<close>, target 2000); any number of further calls leaves that store as it is, with
  exactly one settings row; and \<^verbatim>\<open>get_target_calories\<close> returns 2000 there.
\<close>

theorem initialize_database_idempotent:
  "initialize_database (initialize_database self) = initialize_database self
   \<and> stored_users (DatabaseManager_init (Database fresh_database))
       = [\<lparr>user_id = 1, user_name = ''User'', target_calories = 2000\<rparr>]
   \<and> db_name (DatabaseManager_init (Database fresh_database))
       = Database \<lparr>meals = Some [], meals_seq = 0,
           users = Some [\<lparr>user_id = 1, user_name = ''User'', target_calories = 2000\<rparr>]\<rparr>
   \<and> (initialize_database ^^ n) (DatabaseManager_init (Database fresh_database))
       = DatabaseManager_init (Database fresh_database)
   \<and> length (stored_users ((initialize_database ^^ n) (DatabaseManager_init (Database fresh_database)))) = 1
   \<and> get_target_calories (DatabaseManager_init (Database fresh_database)) = Inr 2000"
proof -
  have pow: "(initialize_database ^^ n) (DatabaseManager_init (Database fresh_database))
       = DatabaseManager_init (Database fresh_database)"
    unfolding DatabaseManager_init_def by (rule initialize_database_funpow)
  have target: "get_target_calories (DatabaseManager_init (Database fresh_database)) = Inr 2000"
    by (simp add: DatabaseManager_init_fresh get_target_calories_def database_of_def
        select_target_calories_def default_user_def)
  show ?thesis
    unfolding pow
    by (simp add: initialize_database_idem target)
      (simp add: DatabaseManager_init_fresh stored_users_def default_user_def)
qed

subsection \<open>Claim about a store that failed to open\<close>

text \<open>
  When \<^verbatim>\<open>sqlite3.connect\<close> itself raises, \<^verbatim>\<open>self.connection\<close> stays \<^verbatim>\<open>None\<close> and
  every operation leaves with \<^verbatim>\<open>AttributeError\<close>, which no handler catches.
\<close>

lemma absent_connection_raises:
  assumes "connection self = None"
  shows "read_meals_by_date self dt = Inl AttributeError"
    and "read_all_meals self = Inl AttributeError"
    and "get_daily_calories self dt = Inl AttributeError"
    and "get_target_calories self = Inl AttributeError"
    and "create_meal self now dt mt fn cal ss nt = (Inl AttributeError, self)"
    and "update_meal self meal_id mt fn cal ss nt = (Inl AttributeError, self)"
    and "delete_meal self meal_id = (Inl AttributeError, self)"
  using assms
  by (simp_all add: read_meals_by_date_def read_all_meals_def get_daily_calories_def
      get_target_calories_def create_meal_def update_meal_def delete_meal_def)

lemma failed_open_absent_connection:
  "connection (DatabaseManager_init CannotOpen) = None"
  by (simp add: DatabaseManager_init_def initialize_database_def sqlite3_connect_def)

text \<open>
  C2, as stated, fails: when the file opens but is not a database, the initialization
  fails and the connection stays; the read operations then return their default values
  (the empty list, 0.0, 2000) and do not fail.
\<close>

theorem failed_store_counterexample:
  "read_meals_by_date (DatabaseManager_init NotADatabase) ''2024-01-01'' = Inr []
   \<and> read_all_meals (DatabaseManager_init NotADatabase) = Inr []
   \<and> get_daily_calories (DatabaseManager_init NotADatabase) ''2024-01-01'' = Inr 0
   \<and> get_target_calories (DatabaseManager_init NotADatabase) = Inr 2000"
  by (simp add: DatabaseManager_init_def initialize_database_def sqlite3_connect_def
      database_of_def read_meals_by_date_def read_all_meals_def get_daily_calories_def
      get_target_calories_def)

text \<open>
  C2, amended. On a connection that is present and whose statements raise
  \<^verbatim>\<open>sqlite3.Error\<close>, the error is caught in every operation: \<^verbatim>\<open>create_meal\<close>,
  \<^verbatim>\<open>update_meal\<close> and \<^verbatim>\<open>delete_meal\<close> report the failure by returning \<^verbatim>\<open>False\<close>
  and change nothing; \<^verbatim>\<open>read_meals_by_date\<close> and \<^verbatim>\<open>read_all_meals\<close> return the
  empty list, \<^verbatim>\<open>get_daily_calories\<close> returns 0.0 and \<^verbatim>\<open>get_target_calories\<close>
  returns 2000.
\<close>

theorem failing_statements_are_caught:
  assumes "connection self = Some conn"
    and "database_of (db_name self) = Inl err"
  shows "create_meal self now dt mt fn cal ss nt = (Inr False, self)
    \<and> update_meal self meal_id mt fn cal ss nt = (Inr False, self)
    \<and> delete_meal self meal_id = (Inr False, self)
    \<and> read_meals_by_date self dt = Inr []
    \<and> read_all_meals self = Inr []
    \<and> get_daily_calories self dt = Inr 0
    \<and> get_target_calories self = Inr 2000"
  using assms
  by (simp add: read_meals_by_date_def read_all_meals_def get_daily_calories_def
      get_target_calories_def create_meal_def update_meal_def delete_meal_def)

theorem failing_statements_are_caught_witness:
  "connection (DatabaseManager_init NotADatabase) = Some Connection
   \<and> database_of (db_name (DatabaseManager_init NotADatabase)) = Inl DatabaseError
   \<and> create_meal (DatabaseManager_init NotADatabase) ''2024-01-01T12:00:00'' ''2024-01-01''
        ''Lunch'' ''Rice'' (Number 200) ''1 cup'' [] = (Inr False, DatabaseManager_init NotADatabase)
   \<and> delete_meal (DatabaseManager_init NotADatabase) 1
        = (Inr False, DatabaseManager_init NotADatabase)
   \<and> get_target_calories (DatabaseManager_init NotADatabase) = Inr 2000"
proof -
  have c: "connection (DatabaseManager_init NotADatabase) = Some Connection"
    by (simp add: DatabaseManager_init_def initialize_database_def sqlite3_connect_def
        database_of_def)
  have d: "database_of (db_name (DatabaseManager_init NotADatabase)) = Inl DatabaseError"
    by (simp add: DatabaseManager_init_def initialize_database_def sqlite3_connect_def
        database_of_def)
  from failing_statements_are_caught [OF c d] c d show ?thesis by simp
qed

subsection \<open>Claim about \<^verbatim>\<open>get_weekly_data\<close>\<close>

text \<open>
  On a connection that is present \<^verbatim>\<open>get_daily_calories\<close> always returns, and returns
  0.0 for a date without meals. When the seven clock readings of one call fall on the
  same day, \<^verbatim>\<open>get_weekly_data\<close> returns that day and the six days before it, oldest
  first, each with its total.
\<close>

lemma get_daily_calories_returns:
  assumes "connection self = Some conn"
  shows "\<exists>x. get_daily_calories self dt = Inr x"
  using assms
  by (auto simp: get_daily_calories_def split: sum.splits option.splits)

lemma get_daily_calories_no_meals:
  assumes "connection self = Some conn"
    and "\<forall>r \<in> set (stored_meals self). col_date r \<noteq> dt"
  shows "get_daily_calories self dt = Inr 0"
  using assms
  by (auto simp: get_daily_calories_def stored_meals_def database_of_def
      select_sum_calories_def Let_def filter_empty_conv
      split: sum.splits option.splits sqlite_file.splits)

lemma weekly_loop_same_day:
  assumes "connection self = Some conn"
    and "\<forall>j < length days. toordinal (clock (k + j)) = today"
    and "\<forall>i \<in> set days. int i < today"
  shows "weekly_loop self clock k days acc
     = Inr (acc @ map (\<lambda>i. (ymd_string (today - int i),
                              projr (get_daily_calories self (ymd_string (today - int i))))) days)"
  using assms(2,3)
proof (induction days arbitrary: k acc)
  case Nil
  then show ?case by simp
next
  case (Cons i rest)
  from Cons.prems(1) have t: "toordinal (clock k) = today" by fastforce
  from Cons.prems(2) have i: "int i < today" by simp
  have md: "minus_days (clock k) i = Inr ((clock k)\<lparr>toordinal := today - int i\<rparr>)"
    using t i by (simp add: minus_days_def)
  obtain x where x: "get_daily_calories self (ymd_string (today - int i)) = Inr x"
    using get_daily_calories_returns [OF assms(1)] by blast
  have shift: "\<forall>j < length rest. toordinal (clock (Suc k + j)) = today"
    using Cons.prems(1) by fastforce
  have rest: "\<forall>i \<in> set rest. int i < today" using Cons.prems(2) by simp
  show ?case
    using Cons.IH [OF shift rest] md x by (simp add: strftime_Ymd_def)
qed

lemma get_weekly_data_same_day:
  assumes "connection self = Some conn"
    and "\<forall>k < 7. toordinal (clock k) = today"
    and "7 \<le> today"
  shows "get_weekly_data self clock
     = Inr (map (\<lambda>i. (ymd_string (today - int i),
                       projr (get_daily_calories self (ymd_string (today - int i)))))
              [6, 5, 4, 3, 2, 1, 0])"
proof -
  have a: "\<forall>j < length [6, 5, 4, 3, 2, 1, 0 :: nat]. toordinal (clock (0 + j)) = today"
    using assms(2) by simp
  have b: "\<forall>i \<in> set [6, 5, 4, 3, 2, 1, 0 :: nat]. int i < today"
    using assms(3) by simp
  show ?thesis
    unfolding get_weekly_data_def
    using weekly_loop_same_day [OF assms(1) a b, of "[]"] by simp
qed

text \<open>
  C4. The loop reads the clock anew in every round. When midnight passes between the
  fourth and the fifth reading (here from 2024-03-01 to 2024-03-02), the seven dates
  returned skip 2024-02-28: the week has a gap.
\<close>

theorem get_weekly_data_midnight:
  "get_weekly_data (DatabaseManager_init (Database fresh_database))
     (\<lambda>k. if k < 4 then \<lparr>toordinal = 738946, microsecond_of_day = 86399999999\<rparr>
          else \<lparr>toordinal = 738947, microsecond_of_day = 15\<rparr>)
   = Inr [(''2024-02-24'', 0), (''2024-02-25'', 0), (''2024-02-26'', 0), (''2024-02-27'', 0),
          (''2024-02-29'', 0), (''2024-03-01'', 0), (''2024-03-02'', 0)]"
  by code_simp

end
